theory Spec2Isabelle
  imports Complex_Main "HOL-Library.Sublist" "HOL-Library.Char_ord"
    "HOL-Library.List_Lexorder"
begin

section \<open>Health Navigator: the recommendation and booking code of \<^verbatim>\<open>app.py\<close>\<close>

text \<open>
  \<^verbatim>\<open>app.py\<close> is a script without functions of its own for the parts verified here: each
  definition below embeds one block of the script and is named after the variable the
  block assigns (or the button that triggers it); the line numbers of the block are given
  with each definition.
\<close>

subsection \<open>What the script shows or raises\<close>

text \<open>
  Exceptions are values. \<open>NotFound\<close> is what the document store raises when
  \<^verbatim>\<open>update\<close> is called on a document that does not exist, \<open>TypeError\<close> and
  \<open>KeyError\<close> are Python's own for subscripting \<^verbatim>\<open>None\<close> and for a missing
  dictionary key, \<open>ServiceError\<close> stands for whatever an external client (the
  classifier, the places client, the document store) raises.
\<close>

datatype exn = NotFound | TypeError | KeyError string | ServiceError string

text \<open>
  How one run of a handler ends: \<open>Warning msg\<close> is \<^verbatim>\<open>st.warning(msg)\<close>,
  \<open>Error e\<close> is the \<^verbatim>\<open>except Exception as e: st.error(...)\<close> branch,
  \<open>Rerun\<close> is \<^verbatim>\<open>st.rerun()\<close> (which ends the run at once; it is not caught by
  \<^verbatim>\<open>except Exception\<close>), \<open>Done\<close> is a run that reaches the end of the block with
  none of these.
\<close>

datatype outcome = Done | Warning string | Error exn | Rerun

subsection \<open>Specialty lookup (lines 369-382)\<close>

text \<open>The dictionary literal \<^verbatim>\<open>specialty_map\<close>, key by key as the source writes it.\<close>

definition specialty_map :: "(string \<times> string) list" where
  "specialty_map =
    [(''Fungal infection'', ''Dermatologist''), (''Allergy'', ''Allergist''),
     (''GERD'', ''Gastroenterologist''),
     (''Acne'', ''Dermatologist''), (''Pneumonia'', ''Pulmonologist''),
     (''Jaundice'', ''Gastroenterologist''),
     (''Migraine'', ''Neurologist''), (''Hypertension '', ''Cardiologist''),
     (''Heart attack'', ''Cardiologist''),
     (''Paralysis (brain hemorrhage)'', ''Neurologist''),
     (''Chicken pox'', ''Dermatologist''),
     (''Malaria'', ''General Practitioner''), (''Dengue'', ''General Practitioner''),
     (''Typhoid'', ''General Practitioner'')]"

text \<open>\<^verbatim>\<open>specialty_map.get(prediction, 'General Practitioner')\<close>.\<close>

definition specialist_for :: "string \<Rightarrow> string" where
  "specialist_for prediction =
    (case map_of specialty_map prediction of
       Some s \<Rightarrow> s
     | None \<Rightarrow> ''General Practitioner'')"

subsection \<open>The classifier's input (lines 361-364)\<close>

text \<open>
  A Python dictionary keeps its keys in insertion order, and the data frame built from
  \<^verbatim>\<open>model_input\<close> has its columns in that order, so the dictionary is an association
  list. \<open>dict_set\<close> is \<^verbatim>\<open>d[k] = v\<close>: an existing key keeps its position and gets
  the new value, a new key goes to the end.
\<close>

fun dict_set :: "'k \<Rightarrow> 'v \<Rightarrow> ('k \<times> 'v) list \<Rightarrow> ('k \<times> 'v) list" where
  "dict_set k v [] = [(k, v)]"
| "dict_set k v ((k', v') # d) =
     (if k = k' then (k', v) # d else (k', v') # dict_set k v d)"

text \<open>\<^verbatim>\<open>{symptom: 0 for symptom in symptoms}\<close>\<close>

definition zero_input :: "string list \<Rightarrow> (string \<times> int) list" where
  "zero_input symptoms = foldl (\<lambda>d symptom. dict_set symptom 0 d) [] symptoms"

text \<open>
  \<^verbatim>\<open>for symptom in user_symptoms: if symptom in model_input: model_input[symptom] = 1\<close>
\<close>

definition model_input :: "string list \<Rightarrow> string list \<Rightarrow> (string \<times> int) list" where
  "model_input symptoms user_symptoms =
     foldl (\<lambda>d symptom. if symptom \<in> fst ` set d then dict_set symptom 1 d else d)
       (zero_input symptoms) user_symptoms"

subsection \<open>Candidates and the external services (lines 387, 395)\<close>

text \<open>
  The places client returns dictionaries. A search result is read by the script only at
  \<^verbatim>\<open>'place_id'\<close>; everything else the search call put there is carried along in
  \<open>search_fields\<close>. The loop at lines 391-402 adds the key \<^verbatim>\<open>'details'\<close>, absent
  (\<open>None\<close>) until then. The details dictionary has the seven requested fields, each of
  which may be missing; \<^verbatim>\<open>details['geometry']['location']\<close> is the \<open>location\<close>.
\<close>

record location =
  lat :: real
  lng :: real

record details =
  name :: "string option"
  formatted_address :: "string option"
  international_phone_number :: "string option"
  website :: "string option"
  rating :: "real option"
  opening_hours :: "bool option option"
  geometry :: "location option"

record doctor =
  place_id :: string
  search_fields :: "string \<rightharpoonup> string"
  doctor_details :: "details option"

record map_point =
  point_name :: string
  point_lat :: real
  point_lon :: real

text \<open>
  The responses: \<^verbatim>\<open>places_result.get('results', [])\<close> and
  \<^verbatim>\<open>place_details.get('result', {})\<close> allow for a response without the key.
\<close>

record places_result =
  results :: "doctor list option"

record place_details =
  result :: "details option"

text \<open>
  The classifier and the places client are outside the script; a call either returns or
  raises. \<open>predict\<close> is \<^verbatim>\<open>model.predict(pd.DataFrame([model_input]))[0]\<close>,
  \<open>places\<close> is \<^verbatim>\<open>gmaps.places(query=..., type=...)\<close> and \<open>place\<close> is
  \<^verbatim>\<open>gmaps.place(place_id=..., fields=...)\<close>.
\<close>

record services =
  predict :: "(string \<times> int) list \<Rightarrow> exn + string"
  places :: "string \<Rightarrow> string \<Rightarrow> exn + places_result"
  place :: "string \<Rightarrow> string list \<Rightarrow> exn + place_details"

subsection \<open>Session state (lines 98-107)\<close>

datatype confirmation = Success string | Failure exn

record session =
  booking_confirmation :: "confirmation option"
  prediction :: "string option"
  specialist :: "string option"
  doctors_list :: "doctor list"
  map_data_list :: "map_point list"

subsection \<open>Search and truncation (lines 386-388)\<close>

text \<open>\<^verbatim>\<open>places_result.get('results', [])\<close>\<close>

definition get_results :: "places_result \<Rightarrow> doctor list" where
  "get_results places_result =
     (case results places_result of None \<Rightarrow> [] | Some rs \<Rightarrow> rs)"

text \<open>\<^verbatim>\<open>places_result.get('results', [])[:5]\<close>\<close>

definition top_results :: "places_result \<Rightarrow> doctor list" where
  "top_results places_result = take 5 (get_results places_result)"

text \<open>
  The query \<^verbatim>\<open>f"{specialist} in {user_location}"\<close>, the call with
  \<^verbatim>\<open>type='doctor'\<close> and the truncation. An exception of the call is passed on.
\<close>

definition search :: "services \<Rightarrow> string \<Rightarrow> string \<Rightarrow> exn + doctor list" where
  "search sv specialty user_location =
     (case places sv (specialty @ '' in '' @ user_location) ''doctor'' of
        Inl e \<Rightarrow> Inl e
      | Inr places_result \<Rightarrow> Inr (top_results places_result))"

subsection \<open>The detail lookups (lines 390-403)\<close>

text \<open>The list \<^verbatim>\<open>fields\<close> of lines 393-394.\<close>

definition place_fields :: "string list" where
  "place_fields = [''name'', ''formatted_address'', ''international_phone_number'',
             ''website'', ''rating'', ''opening_hours'', ''geometry'']"

text \<open>\<^verbatim>\<open>{}\<close>, the details dictionary without any field.\<close>

definition no_details :: details where
  "no_details =
     \<lparr>name = None, formatted_address = None, international_phone_number = None,
      website = None, rating = None, opening_hours = None, geometry = None\<rparr>"

text \<open>\<^verbatim>\<open>place_details.get('result', {})\<close>\<close>

definition get_result :: "place_details \<Rightarrow> details" where
  "get_result place_details =
     (case result place_details of None \<Rightarrow> no_details | Some d \<Rightarrow> d)"

text \<open>
  Lines 398-402: a candidate whose details have a \<^verbatim>\<open>'geometry'\<close> gets a point on
  the map, named \<^verbatim>\<open>details.get('name', 'N/A')\<close>.
\<close>

definition add_map_point :: "details \<Rightarrow> map_point list \<Rightarrow> map_point list" where
  "add_map_point details temp_map_data =
     (case geometry details of
        None \<Rightarrow> temp_map_data
      | Some location \<Rightarrow>
          temp_map_data @
            [\<lparr>point_name = (case name details of None \<Rightarrow> ''N/A'' | Some n \<Rightarrow> n),
              point_lat = lat location, point_lon = lng location\<rparr>])"

text \<open>
  The loop over \<^verbatim>\<open>st.session_state.doctors_list\<close>. It writes
  \<^verbatim>\<open>doctor['details']\<close> into the dictionaries of the list itself, so what it has
  written stays when a later lookup raises. The first component of the result is the
  list as the loop leaves it; the second is the exception that ended the loop, or
  \<^verbatim>\<open>temp_map_data\<close> when the loop ran to its end.
\<close>

fun lookup_details ::
  "services \<Rightarrow> doctor list \<Rightarrow> map_point list \<Rightarrow> doctor list \<times> (exn + map_point list)"
where
  "lookup_details sv [] temp_map_data = ([], Inr temp_map_data)"
| "lookup_details sv (doctor # rest) temp_map_data =
     (case place sv (place_id doctor) place_fields of
        Inl e \<Rightarrow> (doctor # rest, Inl e)
      | Inr place_details \<Rightarrow>
          (let details = get_result place_details;
               doctor' = doctor\<lparr>doctor_details := Some details\<rparr>
           in (case lookup_details sv rest (add_map_point details temp_map_data) of
                 (rest', r) \<Rightarrow> (doctor' # rest', r))))"

text \<open>
  For the statements below: the candidate as lines 395-397 leave it when its lookup
  returns (a candidate whose lookup raises is left as it is).
\<close>

definition looked_up :: "services \<Rightarrow> doctor \<Rightarrow> doctor" where
  "looked_up sv doctor =
     (case place sv (place_id doctor) place_fields of
        Inl e \<Rightarrow> doctor
      | Inr place_details \<Rightarrow> doctor\<lparr>doctor_details := Some (get_result place_details)\<rparr>)"

subsection \<open>The Find-a-Doctor button (lines 348-408)\<close>

text \<open>The body of the \<^verbatim>\<open>try\<close>, from the prediction on (lines 365-404).\<close>

definition recommend ::
  "services \<Rightarrow> (string \<times> int) list \<Rightarrow> string \<Rightarrow> session \<Rightarrow> outcome \<times> session"
where
  "recommend sv input user_location st =
     (case predict sv input of
        Inl e \<Rightarrow> (Error e, st)
      | Inr p \<Rightarrow>
          (let st1 = st\<lparr>prediction := Some p\<rparr>;
               st2 = st1\<lparr>specialist := Some (specialist_for p)\<rparr>
           in (case search sv (specialist_for p) user_location of
                 Inl e \<Rightarrow> (Error e, st2)
               | Inr ds \<Rightarrow>
                   (case lookup_details sv ds [] of
                      (ds', Inl e) \<Rightarrow> (Error e, st2\<lparr>doctors_list := ds'\<rparr>)
                    | (ds', Inr temp_map_data) \<Rightarrow>
                        (Done, st2\<lparr>doctors_list := ds', map_data_list := temp_map_data\<rparr>)))))"

text \<open>
  The guard of line 349 and the reset of lines 352-355, then the \<^verbatim>\<open>try\<close> block with
  the classifier's input built from the catalog \<^verbatim>\<open>symptoms\<close> and the selection
  \<^verbatim>\<open>user_symptoms\<close>.
\<close>

definition find_doctor ::
  "services \<Rightarrow> string list \<Rightarrow> string list \<Rightarrow> string \<Rightarrow> session \<Rightarrow> outcome \<times> session"
where
  "find_doctor sv symptoms user_symptoms user_location st =
     (if user_symptoms = [] \<or> user_location = []
      then (Warning ''Please select at least one symptom or location.'', st)
      else recommend sv (model_input symptoms user_symptoms) user_location
             (st\<lparr>prediction := None, specialist := None,
                 doctors_list := [], map_data_list := []\<rparr>))"

subsection \<open>The document store\<close>

text \<open>
  A document is a dictionary of fields (all fields the script writes are strings); a
  collection lists the documents with their ids. The store keeps ids unique,
  \<open>distinct (map fst coll)\<close>, and streams the documents of a query without
  \<^verbatim>\<open>order_by\<close> in ascending order of id, so the list is kept in that order:
  \<open>sorted (map fst coll)\<close>, with strings compared character by character.
\<close>

type_synonym document = "string \<rightharpoonup> string"

type_synonym collection = "(string \<times> document) list"



text \<open>
  What \<^verbatim>\<open>.document(doc_id).set(d)\<close> does to the collection when the store accepts
  the write: the document is replaced when the id is there already, and otherwise
  created, at the place its id has in the order of ids.
\<close>

definition put_document :: "collection \<Rightarrow> string \<Rightarrow> document \<Rightarrow> collection" where
  "put_document coll doc_id d =
     (if doc_id \<in> fst ` set coll
      then map (\<lambda>(i, d'). if i = doc_id then (i, d) else (i, d')) coll
      else insort_key fst (doc_id, d) coll)"

text \<open>
  \<^verbatim>\<open>.document(doc_id).set(d)\<close>. The write goes to a service outside the script,
  which accepts it or raises (it is unreachable, it denies the permission, it times
  out); \<open>fault\<close> is the exception with which the store answers this write, if it
  does.
\<close>

definition set_document ::
  "exn option \<Rightarrow> collection \<Rightarrow> string \<Rightarrow> document \<Rightarrow> exn + collection"
where
  "set_document fault coll doc_id d =
     (case fault of
        Some e \<Rightarrow> Inl e
      | None \<Rightarrow> Inr (put_document coll doc_id d))"

subsection \<open>The doctor's dashboard (lines 255-311)\<close>


text \<open>\<^verbatim>\<open>appt_data.get("status", "Pending")\<close>\<close>

definition status_of :: "document \<Rightarrow> string" where
  "status_of appt_data =
     (case appt_data ''status'' of None \<Rightarrow> ''Pending'' | Some s \<Rightarrow> s)"

text \<open>
  For the statements below: the status a run reads for the document with the given id,
  if the store has one.
\<close>

definition stored_status :: "collection \<Rightarrow> string \<Rightarrow> string option" where
  "stored_status db doc_id = map_option status_of (map_of db doc_id)"




subsection \<open>The booking form (lines 454-486)\<close>

text \<open>
  \<^verbatim>\<open>str\<close> of a \<^verbatim>\<open>datetime.date\<close> and of a \<^verbatim>\<open>datetime.time\<close> is the ISO format,
  with zero-padded decimal fields.
\<close>

record date =
  year :: nat
  month :: nat
  day :: nat

record time =
  hour :: nat
  minute :: nat
  second :: nat
  microsecond :: nat

definition digit :: "nat \<Rightarrow> char" where
  "digit n = ''0123456789'' ! (n mod 10)"

definition pad2 :: "nat \<Rightarrow> string" where
  "pad2 n = [digit (n div 10), digit n]"

definition pad4 :: "nat \<Rightarrow> string" where
  "pad4 n = [digit (n div 1000), digit (n div 100), digit (n div 10), digit n]"

definition pad6 :: "nat \<Rightarrow> string" where
  "pad6 n = [digit (n div 100000), digit (n div 10000), digit (n div 1000),
             digit (n div 100), digit (n div 10), digit n]"

definition str_date :: "date \<Rightarrow> string" where
  "str_date d = pad4 (year d) @ ''-'' @ pad2 (month d) @ ''-'' @ pad2 (day d)"

definition str_time :: "time \<Rightarrow> string" where
  "str_time t =
     pad2 (hour t) @ '':'' @ pad2 (minute t) @ '':'' @ pad2 (second t) @
     (if microsecond t = 0 then [] else ''.'' @ pad6 (microsecond t))"

record user =
  email :: string
  localId :: string

text \<open>
  What the submitted form holds. The date picker is created with
  \<^verbatim>\<open>min_value=datetime.date.today()\<close>, so the date it hands over is never before
  the day of the run; the handler itself does not look at the date.
\<close>

record booking_form =
  patient_name_input :: string
  appt_date :: date
  appt_time :: time

text \<open>
  The document of lines 471-480, for the doctor's displayed \<^verbatim>\<open>name\<close> and
  \<^verbatim>\<open>place_id\<close>.
\<close>

definition appointment_document ::
  "user \<Rightarrow> string \<Rightarrow> string \<Rightarrow> booking_form \<Rightarrow> document"
where
  "appointment_document u doctor_name doctor_place_id form =
     [''patient_email'' \<mapsto> email u,
      ''patient_id'' \<mapsto> localId u,
      ''patient_name'' \<mapsto> patient_name_input form,
      ''doctor_name'' \<mapsto> doctor_name,
      ''doctor_place_id'' \<mapsto> doctor_place_id,
      ''appointment_date'' \<mapsto> str_date (appt_date form),
      ''appointment_time'' \<mapsto> str_time (appt_time form),
      ''status'' \<mapsto> ''Pending'']"

text \<open>
  \<^verbatim>\<open>name = doctor.get('details', {}).get('name', 'N/A')\<close> (lines 421-423).
\<close>

definition display_name :: "doctor \<Rightarrow> string" where
  "display_name doctor =
     (case doctor_details doctor of
        None \<Rightarrow> ''N/A''
      | Some details \<Rightarrow> (case name details of None \<Rightarrow> ''N/A'' | Some n \<Rightarrow> n))"

text \<open>
  The handler of the submitted form (lines 465-486). \<open>new_id\<close> is the id the store
  generates for \<^verbatim>\<open>db.collection("appointments").document()\<close> and \<open>fault\<close> is
  the store's answer to the write, as in \<open>set_document\<close>. The result has the
  session's \<^verbatim>\<open>booking_confirmation\<close> as the handler leaves it, and the store.
\<close>

definition request_appointment ::
  "exn option \<Rightarrow> user \<Rightarrow> doctor \<Rightarrow> string \<Rightarrow> booking_form \<Rightarrow> session \<Rightarrow> collection
     \<Rightarrow> outcome \<times> session \<times> collection"
where
  "request_appointment fault u doctor new_id form st db =
     (if patient_name_input form = []
      then (Warning ''Please enter your name.'', st, db)
      else
        (case set_document fault db new_id
                (appointment_document u (display_name doctor) (place_id doctor) form) of
           Inl e \<Rightarrow> (Rerun, st\<lparr>booking_confirmation := Some (Failure e)\<rparr>, db)
         | Inr db' \<Rightarrow>
             (Rerun, st\<lparr>booking_confirmation := Some (Success (display_name doctor))\<rparr>, db')))"

subsection \<open>Example data\<close>

text \<open>Services whose calls all return, with no search results and no details.\<close>

definition example_services :: services where
  "example_services =
     \<lparr>predict = (\<lambda>input. Inr ''Fungal infection''),
      places = (\<lambda>query type. Inr \<lparr>results = Some []\<rparr>),
      place = (\<lambda>place_id fields. Inr \<lparr>result = None\<rparr>)\<rparr>"

definition empty_session :: session where
  "empty_session =
     \<lparr>booking_confirmation = None, prediction = None, specialist = None,
      doctors_list = [], map_data_list = []\<rparr>"

text \<open>
  A store with two pending appointments, one for each of two clinics, and the profiles of
  the two clinics.
\<close>

definition example_user :: user where
  "example_user = \<lparr>email = ''asha@example.org'', localId = ''u1''\<rparr>"

definition example_form :: booking_form where
  "example_form =
     \<lparr>patient_name_input = ''Asha Rao'',
      appt_date = \<lparr>year = 2026, month = 11, day = 3\<rparr>,
      appt_time = \<lparr>hour = 9, minute = 30, second = 0, microsecond = 0\<rparr>\<rparr>"



definition example_db :: collection where
  "example_db =
     [(''a1'', appointment_document example_user ''City Clinic'' ''P1'' example_form),
      (''a2'', appointment_document example_user ''Lakeview Clinic'' ''P2'' example_form)]"

text \<open>
  Search results and detail responses for two more services: one whose search returns
  three places and whose lookup of \<open>''p2''\<close> raises, one whose search returns six
  places and whose lookup of \<open>''p2''\<close> returns without a result.
\<close>

definition example_doctor :: "string \<Rightarrow> doctor" where
  "example_doctor pid =
     \<lparr>place_id = pid, search_fields = [''name'' \<mapsto> ''Clinic '' @ pid],
      doctor_details = None\<rparr>"

definition example_details :: "string \<Rightarrow> details" where
  "example_details pid =
     \<lparr>name = Some (''Clinic '' @ pid), formatted_address = None,
      international_phone_number = None, website = None, rating = None,
      opening_hours = None, geometry = Some \<lparr>lat = 26, lng = 80\<rparr>\<rparr>"

definition failing_services :: services where
  "failing_services =
     \<lparr>predict = (\<lambda>input. Inr ''Fungal infection''),
      places = (\<lambda>query type.
        Inr \<lparr>results = Some [example_doctor ''p1'', example_doctor ''p2'', example_doctor ''p3'']\<rparr>),
      place = (\<lambda>pid fields.
        if pid = ''p2'' then Inl (ServiceError ''timeout'')
        else Inr \<lparr>result = Some (example_details pid)\<rparr>)\<rparr>"

definition patchy_services :: services where
  "patchy_services =
     \<lparr>predict = (\<lambda>input. Inr ''Fungal infection''),
      places = (\<lambda>query type.
        Inr \<lparr>results = Some (map example_doctor
                 [''p1'', ''p2'', ''p3'', ''p4'', ''p5'', ''p6''])\<rparr>),
      place = (\<lambda>pid fields.
        if pid = ''p2'' then Inr \<lparr>result = None\<rparr>
        else Inr \<lparr>result = Some (example_details pid)\<rparr>)\<rparr>"

section \<open>Specialty lookup: results\<close>

lemma specialty_map_distinct: "distinct (map fst specialty_map)"
  by (simp add: specialty_map_def)

text \<open>
  C5. The lookup is a total function of the condition string: a condition that is a key
  of the table gets the specialty the table pairs it with, every other condition gets
  \<open>''General Practitioner''\<close>.
\<close>

theorem specialist_for_table:
  "((c, s) \<in> set specialty_map \<longrightarrow> specialist_for c = s) \<and>
   (c \<notin> fst ` set specialty_map \<longrightarrow> specialist_for c = ''General Practitioner'')"
proof (intro conjI impI)
  assume "(c, s) \<in> set specialty_map"
  with specialty_map_distinct have "map_of specialty_map c = Some s"
    by (rule map_of_is_SomeI)
  then show "specialist_for c = s"
    by (simp add: specialist_for_def)
next
  assume "c \<notin> fst ` set specialty_map"
  then have "map_of specialty_map c = None"
    by (simp add: map_of_eq_None_iff)
  then show "specialist_for c = ''General Practitioner''"
    by (simp add: specialist_for_def)
qed

theorem specialist_for_table_witness:
  "(''GERD'', ''Gastroenterologist'') \<in> set specialty_map \<and>
   specialist_for ''GERD'' = ''Gastroenterologist'' \<and>
   ''Common Cold'' \<notin> fst ` set specialty_map \<and>
   specialist_for ''Common Cold'' = ''General Practitioner''"
proof -
  have a: "(''GERD'', ''Gastroenterologist'') \<in> set specialty_map"
    by (simp add: specialty_map_def)
  have b: "''Common Cold'' \<notin> fst ` set specialty_map"
    by (simp add: specialty_map_def)
  from a specialist_for_table [of "''GERD''" "''Gastroenterologist''"]
  have c: "specialist_for ''GERD'' = ''Gastroenterologist''" by blast
  from b specialist_for_table [of "''Common Cold''" "''x''"]
  have d: "specialist_for ''Common Cold'' = ''General Practitioner''" by blast
  from a b c d show ?thesis by blast
qed

text \<open>
  C10. The hypertension key of the table ends in a space. The label without the space
  is not a key and gets the fallback; the key with the space gets
  \<open>''Cardiologist''\<close>, and the only other condition that does is \<open>''Heart attack''\<close>.
\<close>

theorem hypertension_trailing_space:
  "specialist_for ''Hypertension'' = ''General Practitioner'' \<and>
   specialist_for ''Hypertension '' = ''Cardiologist'' \<and>
   ''Hypertension'' \<notin> fst ` set specialty_map \<and>
   (''Hypertension '', ''Cardiologist'') \<in> set specialty_map \<and>
   [c \<leftarrow> map fst specialty_map. specialist_for c = ''Cardiologist'']
     = [''Hypertension '', ''Heart attack'']"
  by (simp add: specialist_for_def specialty_map_def)

section \<open>The classifier's input: results\<close>

lemma dict_set_keys: "fst ` set (dict_set k v d) = insert k (fst ` set d)"
proof (induction d)
  case Nil
  show ?case by simp
next
  case (Cons p d)
  obtain k' v' where p: "p = (k', v')" by (cases p)
  show ?case using Cons.IH
    by (cases "k = k'") (simp_all add: p insert_commute)
qed

lemma dict_set_new: "k \<notin> fst ` set d \<Longrightarrow> dict_set k v d = d @ [(k, v)]"
  by (induction d) auto

lemma dict_set_old:
  "distinct (map fst d) \<Longrightarrow> k \<in> fst ` set d \<Longrightarrow>
   dict_set k v d = map (\<lambda>(k', v'). (k', if k' = k then v else v')) d"
proof (induction d)
  case Nil
  then show ?case by simp
next
  case (Cons p d)
  obtain k' v' where p: "p = (k', v')" by (cases p)
  show ?case
  proof (cases "k = k'")
    case True
    with Cons.prems p have "k \<notin> fst ` set d" by auto
    then have "map (\<lambda>(k', v'). (k', if k' = k then v else v')) d = d"
      by (intro map_idI) force
    with True p show ?thesis by simp
  next
    case False
    with Cons p show ?thesis by auto
  qed
qed

lemma zero_fold_distinct:
  "distinct xs \<Longrightarrow> set xs \<inter> fst ` set acc = {} \<Longrightarrow>
   foldl (\<lambda>d s. dict_set s (0::int) d) acc xs = acc @ map (\<lambda>s. (s, 0)) xs"
proof (induction xs arbitrary: acc)
  case Nil
  then show ?case by simp
next
  case (Cons x xs)
  from Cons.prems have new: "x \<notin> fst ` set acc" by auto
  have "set xs \<inter> fst ` set (acc @ [(x, 0::int)]) = {}"
    using Cons.prems by auto
  with Cons.IH [of "acc @ [(x, 0)]"] Cons.prems new show ?case
    by (simp add: dict_set_new)
qed

lemma zero_input_distinct: "distinct symptoms \<Longrightarrow> zero_input symptoms = map (\<lambda>s. (s, 0)) symptoms"
  using zero_fold_distinct [of symptoms "[]"] by (simp add: zero_input_def)

lemma zero_fold_keys: "fst ` set (foldl (\<lambda>d s. dict_set s (0::int) d) acc xs) = fst ` set acc \<union> set xs"
  by (induction xs arbitrary: acc) (auto simp: dict_set_keys)

lemma zero_input_keys: "fst ` set (zero_input symptoms) = set symptoms"
  by (simp add: zero_input_def zero_fold_keys)

lemma mark_fold_distinct:
  "distinct (map fst d) \<Longrightarrow>
   foldl (\<lambda>d s. if s \<in> fst ` set d then dict_set s (1::int) d else d) d us
     = map (\<lambda>(k, v). (k, if k \<in> set us then 1 else v)) d"
proof (induction us arbitrary: d)
  case Nil
  then show ?case by simp
next
  case (Cons u us)
  show ?case
  proof (cases "u \<in> fst ` set d")
    case True
    let ?d' = "map (\<lambda>(k', v'). (k', if k' = u then 1 else v')) d"
    have keys: "map fst ?d' = map fst d" by (induction d) auto
    with Cons.prems have "distinct (map fst ?d')" by (simp only:)
    from Cons.IH [OF this] True Cons.prems show ?thesis
      by (auto simp: dict_set_old)
  next
    case False
    then have "\<And>k v. (k, v) \<in> set d \<Longrightarrow> k \<noteq> u" by force
    with Cons.IH [OF Cons.prems] False show ?thesis
      by auto
  qed
qed

lemma model_input_distinct:
  "distinct symptoms \<Longrightarrow>
   model_input symptoms user_symptoms
     = map (\<lambda>s. (s, if s \<in> set user_symptoms then 1 else 0)) symptoms"
  by (simp add: model_input_def zero_input_distinct mark_fold_distinct comp_def)

lemma mark_fold_filter:
  "foldl (\<lambda>d s. if s \<in> fst ` set d then dict_set s (1::int) d else d) d us
   = foldl (\<lambda>d s. if s \<in> fst ` set d then dict_set s (1::int) d else d) d [s \<leftarrow> us. s \<in> fst ` set d]"
proof (induction us arbitrary: d)
  case Nil
  then show ?case by simp
next
  case (Cons u us)
  show ?case
  proof (cases "u \<in> fst ` set d")
    case True
    then have k: "fst ` set (dict_set u (1::int) d) = fst ` set d"
      by (simp add: dict_set_keys insert_absorb)
    show ?thesis using Cons.IH [of "dict_set u 1 d"] True
      by (simp add: k)
  next
    case False
    then show ?thesis using Cons.IH [of d] by simp
  qed
qed

lemma model_input_ignores_unknown:
  "model_input symptoms user_symptoms = model_input symptoms [s \<leftarrow> user_symptoms. s \<in> set symptoms]"
  unfolding model_input_def using mark_fold_filter [of "zero_input symptoms" user_symptoms]
  by (simp add: zero_input_keys)

text \<open>
  C8. For a catalog without repeated identifiers (the column names of a data frame are
  unique) and a non-empty selection of catalog identifiers, the classifier's input has
  one entry per catalog identifier, in catalog order, whose value is 1 when the identifier
  was selected and 0 otherwise, so the number of ones is the number of selected
  identifiers.
\<close>

theorem model_input_vector:
  assumes "distinct symptoms" and "user_symptoms \<noteq> []"
    and "set user_symptoms \<subseteq> set symptoms"
  shows "length (model_input symptoms user_symptoms) = length symptoms \<and>
         map fst (model_input symptoms user_symptoms) = symptoms \<and>
         map snd (model_input symptoms user_symptoms)
           = map (\<lambda>s. if s \<in> set user_symptoms then 1 else 0) symptoms \<and>
         length [p \<leftarrow> model_input symptoms user_symptoms. snd p = 1]
           = card (set user_symptoms)"
proof -
  let ?v = "\<lambda>s. if s \<in> set user_symptoms then 1 else (0::int)"
  have eq: "model_input symptoms user_symptoms = map (\<lambda>s. (s, ?v s)) symptoms"
    using assms(1) by (rule model_input_distinct)
  have ones: "[p \<leftarrow> map (\<lambda>s. (s, ?v s)) symptoms. snd p = 1]
                = map (\<lambda>s. (s, ?v s)) [s \<leftarrow> symptoms. s \<in> set user_symptoms]"
    by (induction symptoms) auto
  have "length [s \<leftarrow> symptoms. s \<in> set user_symptoms]
          = card ({s. s \<in> set user_symptoms} \<inter> set symptoms)"
    using assms(1) by (rule distinct_length_filter)
  also have "{s. s \<in> set user_symptoms} \<inter> set symptoms = set user_symptoms"
    using assms(3) by auto
  finally have count: "length [s \<leftarrow> symptoms. s \<in> set user_symptoms] = card (set user_symptoms)" .
  show ?thesis
    by (simp add: eq ones count comp_def)
qed

theorem model_input_vector_witness:
  "distinct [''itching'', ''skin_rash'', ''chills''] \<and>
   [''chills'', ''itching''] \<noteq> [] \<and>
   set [''chills'', ''itching''] \<subseteq> set [''itching'', ''skin_rash'', ''chills''] \<and>
   map snd (model_input [''itching'', ''skin_rash'', ''chills''] [''chills'', ''itching''])
     = [1, 0, 1] \<and>
   length [p \<leftarrow> model_input [''itching'', ''skin_rash'', ''chills''] [''chills'', ''itching''].
             snd p = 1] = 2"
proof -
  have a: "distinct [''itching'', ''skin_rash'', ''chills'']" by simp
  have b: "[''chills'', ''itching''] \<noteq> []" by simp
  have c: "set [''chills'', ''itching''] \<subseteq> set [''itching'', ''skin_rash'', ''chills'']"
    by simp
  have d: "card (set [''chills'', ''itching'']) = 2" by simp
  from model_input_vector [OF a b c] a b c d show ?thesis by simp
qed

text \<open>
  C9, as stated, fails: the construction of the classifier's input rejects nothing. An
  identifier outside the catalog is skipped by the test of line 363, and the result is
  the vector of the identifiers that are in the catalog.
\<close>

theorem unknown_symptom_counterexample:
  "model_input [''itching'', ''skin_rash''] [''itching'', ''no_such_symptom'']
     = [(''itching'', 1), (''skin_rash'', 0)]"
  by (simp add: model_input_def zero_input_def)

text \<open>
  C9, amended. An empty selection, and likewise an empty location, is turned away by the
  handler with a warning before any input is built, and the session is left as it was.
  The construction of the input itself rejects nothing: identifiers outside the catalog
  are ignored silently, the input being the one of the selection without them, and a run
  with a non-empty selection and a non-empty location goes on to the classifier with that
  input.
\<close>

theorem unknown_symptoms_ignored:
  "find_doctor sv symptoms [] user_location st
     = (Warning ''Please select at least one symptom or location.'', st) \<and>
   find_doctor sv symptoms user_symptoms [] st
     = (Warning ''Please select at least one symptom or location.'', st) \<and>
   model_input symptoms user_symptoms
     = model_input symptoms [s \<leftarrow> user_symptoms. s \<in> set symptoms] \<and>
   (user_symptoms \<noteq> [] \<and> user_location \<noteq> [] \<longrightarrow>
      find_doctor sv symptoms user_symptoms user_location st
        = recommend sv (model_input symptoms [s \<leftarrow> user_symptoms. s \<in> set symptoms])
            user_location
            (st\<lparr>prediction := None, specialist := None,
                doctors_list := [], map_data_list := []\<rparr>))"
  using model_input_ignores_unknown [of symptoms user_symptoms]
  by (simp add: find_doctor_def)

theorem unknown_symptoms_ignored_witness:
  "[''skin_rash''] \<noteq> [] \<and> ''Lucknow'' \<noteq> [] \<and>
   find_doctor example_services [''itching'', ''skin_rash''] [''skin_rash'']
       ''Lucknow'' empty_session
     = recommend example_services [(''itching'', 0), (''skin_rash'', 1)] ''Lucknow''
         empty_session \<and>
   find_doctor example_services [''itching'', ''skin_rash''] [''skin_rash''] [] empty_session
     = (Warning ''Please select at least one symptom or location.'', empty_session)"
proof -
  have z: "model_input [''itching'', ''skin_rash'']
             [s \<leftarrow> [''skin_rash'']. s \<in> set [''itching'', ''skin_rash'']]
           = [(''itching'', 0), (''skin_rash'', 1)]"
    by (simp add: model_input_def zero_input_def)
  have r: "empty_session\<lparr>prediction := None, specialist := None,
                doctors_list := [], map_data_list := []\<rparr> = empty_session"
    by (simp add: empty_session_def)
  have h: "[''skin_rash''] \<noteq> [] \<and> ''Lucknow'' \<noteq> []" by simp
  note th = unknown_symptoms_ignored [of example_services "[''itching'', ''skin_rash'']"
      "''Lucknow''" empty_session "[''skin_rash'']"]
  from th h have "find_doctor example_services [''itching'', ''skin_rash''] [''skin_rash'']
       ''Lucknow'' empty_session
     = recommend example_services (model_input [''itching'', ''skin_rash'']
             [s \<leftarrow> [''skin_rash'']. s \<in> set [''itching'', ''skin_rash'']]) ''Lucknow''
         (empty_session\<lparr>prediction := None, specialist := None,
                doctors_list := [], map_data_list := []\<rparr>)"
    by blast
  moreover from th
  have "find_doctor example_services [''itching'', ''skin_rash''] [''skin_rash''] []
          empty_session
        = (Warning ''Please select at least one symptom or location.'', empty_session)"
    by blast
  ultimately show ?thesis using h by (simp only: z r) simp
qed

section \<open>The store and the dashboard: results\<close>






























section \<open>The booking form: results\<close>

lemma put_document_new:
  "doc_id \<notin> fst ` set coll \<Longrightarrow>
   set (put_document coll doc_id d) = insert (doc_id, d) (set coll)"
  by (simp add: put_document_def set_insort_key)

lemma replaced_ids:
  "map fst (map (\<lambda>(i, d'). if i = doc_id then (i, d) else (i, d')) coll) = map fst coll"
  by (induction coll) auto

lemma put_document_sorted:
  "sorted (map fst coll) \<Longrightarrow> sorted (map fst (put_document coll doc_id d))"
  unfolding put_document_def using replaced_ids [of doc_id d coll]
  by (auto simp only: sorted_insort_key split: if_splits)

lemma put_document_distinct:
  "distinct (map fst coll) \<Longrightarrow> distinct (map fst (put_document coll doc_id d))"
  unfolding put_document_def using replaced_ids [of doc_id d coll]
  by (auto simp only: distinct_insort_key fst_conv split: if_splits)

text \<open>
  C4, as stated, fails in both halves. A submitted form with an empty name does not fail
  with an error: the handler shows the warning of line 467 and the run goes on as an
  ordinary run. And a submitted form with a name does not always write a record: when
  the store raises on the write, the \<^verbatim>\<open>except\<close> of lines 483-485 keeps the message in
  the session and the store is as it was.
\<close>

theorem request_appointment_counterexample:
  "request_appointment None example_user (example_doctor ''P1'') ''a3''
       (example_form\<lparr>patient_name_input := []\<rparr>) empty_session example_db
     = (Warning ''Please enter your name.'', empty_session, example_db) \<and>
   patient_name_input example_form = ''Asha Rao'' \<and>
   request_appointment (Some (ServiceError ''unavailable'')) example_user
       (example_doctor ''P1'') ''a3'' example_form empty_session example_db
     = (Rerun,
        empty_session\<lparr>booking_confirmation := Some (Failure (ServiceError ''unavailable''))\<rparr>,
        example_db)"
  by (simp add: request_appointment_def set_document_def example_form_def)

text \<open>
  C4, amended. A submitted form with a non-empty name, whatever its date is (the date
  picker hands over no date before today), writes one new document when the store accepts
  the write: the document is filed under the id the store generated, the documents that
  were there stay, ids stay unique and in order, and the status of the new document is
  \<open>''Pending''\<close>, the only status the handler writes; the run ends with the success
  message and a restart. When the store raises on the write, nothing is written and the
  run ends with the failure message and a restart. A submitted form with an empty name
  gets the warning \<open>''Please enter your name.''\<close> and no error; neither the store nor the
  session changes.
\<close>

theorem request_appointment_pending:
  "(patient_name_input form \<noteq> [] \<and> new_id \<notin> fst ` set db \<longrightarrow>
      request_appointment None u doctor new_id form st db =
        (Rerun, st\<lparr>booking_confirmation := Some (Success (display_name doctor))\<rparr>,
         put_document db new_id
           (appointment_document u (display_name doctor) (place_id doctor) form)) \<and>
      set (put_document db new_id
             (appointment_document u (display_name doctor) (place_id doctor) form))
        = insert (new_id, appointment_document u (display_name doctor) (place_id doctor) form)
            (set db) \<and>
      (distinct (map fst db) \<longrightarrow>
         distinct (map fst (put_document db new_id
             (appointment_document u (display_name doctor) (place_id doctor) form)))) \<and>
      (sorted (map fst db) \<longrightarrow>
         sorted (map fst (put_document db new_id
             (appointment_document u (display_name doctor) (place_id doctor) form)))) \<and>
      appointment_document u (display_name doctor) (place_id doctor) form ''status''
        = Some ''Pending'' \<and>
      appointment_document u (display_name doctor) (place_id doctor) form ''patient_name''
        = Some (patient_name_input form)) \<and>
   (patient_name_input form \<noteq> [] \<longrightarrow>
      request_appointment (Some e) u doctor new_id form st db
        = (Rerun, st\<lparr>booking_confirmation := Some (Failure e)\<rparr>, db)) \<and>
   (patient_name_input form = [] \<longrightarrow>
      request_appointment fault u doctor new_id form st db
        = (Warning ''Please enter your name.'', st, db))"
proof -
  let ?doc = "appointment_document u (display_name doctor) (place_id doctor) form"
  have written: "patient_name_input form \<noteq> [] \<Longrightarrow>
      request_appointment None u doctor new_id form st db =
        (Rerun, st\<lparr>booking_confirmation := Some (Success (display_name doctor))\<rparr>,
         put_document db new_id ?doc)"
    by (simp add: request_appointment_def set_document_def)
  have refused: "patient_name_input form \<noteq> [] \<Longrightarrow>
      request_appointment (Some e) u doctor new_id form st db
        = (Rerun, st\<lparr>booking_confirmation := Some (Failure e)\<rparr>, db)"
    by (simp add: request_appointment_def set_document_def)
  have unnamed: "patient_name_input form = [] \<Longrightarrow>
      request_appointment fault u doctor new_id form st db
        = (Warning ''Please enter your name.'', st, db)"
    by (simp add: request_appointment_def)
  have doc: "?doc ''status'' = Some ''Pending''"
    "?doc ''patient_name'' = Some (patient_name_input form)"
    by (simp_all add: appointment_document_def)
  show ?thesis
    using written refused unnamed doc put_document_new [of new_id db ?doc]
      put_document_distinct [of db new_id ?doc] put_document_sorted [of db new_id ?doc]
    by blast
qed

theorem request_appointment_pending_witness:
  "patient_name_input example_form \<noteq> [] \<and> ''a0'' \<notin> fst ` set example_db \<and>
   distinct (map fst example_db) \<and> sorted (map fst example_db) \<and>
   fst (request_appointment None example_user (example_doctor ''P1'') ''a0''
          example_form empty_session example_db) = Rerun \<and>
   map fst (snd (snd (request_appointment None example_user (example_doctor ''P1'') ''a0''
                        example_form empty_session example_db)))
     = [''a0'', ''a1'', ''a2''] \<and>
   stored_status (snd (snd (request_appointment None example_user (example_doctor ''P1'')
                              ''a0'' example_form empty_session example_db))) ''a0''
     = Some ''Pending'' \<and>
   snd (snd (request_appointment (Some NotFound) example_user (example_doctor ''P1'') ''a0''
               example_form empty_session example_db)) = example_db \<and>
   request_appointment None example_user (example_doctor ''P1'') ''a0''
       (example_form\<lparr>patient_name_input := []\<rparr>) empty_session example_db
     = (Warning ''Please enter your name.'', empty_session, example_db)"
proof -
  let ?doc = "appointment_document example_user (display_name (example_doctor ''P1''))
                (place_id (example_doctor ''P1'')) example_form"
  let ?db' = "put_document example_db ''a0'' ?doc"
  have a: "patient_name_input example_form \<noteq> [] \<and> ''a0'' \<notin> fst ` set example_db"
    by (simp add: example_form_def example_db_def)
  have b: "patient_name_input (example_form\<lparr>patient_name_input := []\<rparr>) = []" by simp
  have k: "distinct (map fst example_db)" "sorted (map fst example_db)"
    by (simp_all add: example_db_def)
  note th = request_appointment_pending [of example_form "''a0''" example_db example_user
      "example_doctor ''P1''" empty_session NotFound None]
  from th a have run: "request_appointment None example_user (example_doctor ''P1'') ''a0''
          example_form empty_session example_db =
        (Rerun, empty_session\<lparr>booking_confirmation :=
                   Some (Success (display_name (example_doctor ''P1'')))\<rparr>, ?db')"
    and mem: "set ?db' = insert (''a0'', ?doc) (set example_db)"
    and pend: "?doc ''status'' = Some ''Pending''"
    and fail: "request_appointment (Some NotFound) example_user (example_doctor ''P1'') ''a0''
          example_form empty_session example_db =
        (Rerun, empty_session\<lparr>booking_confirmation := Some (Failure NotFound)\<rparr>, example_db)"
    by blast+
  from th a k have inv: "distinct (map fst ?db')" "sorted (map fst ?db')" by blast+
  from mem have "(''a0'', ?doc) \<in> set ?db'" by simp
  with inv(1) have "map_of ?db' ''a0'' = Some ?doc" by (rule map_of_is_SomeI)
  with pend have st: "stored_status ?db' ''a0'' = Some ''Pending''"
    by (simp add: stored_status_def status_of_def)
  have ids: "map fst ?db' = [''a0'', ''a1'', ''a2'']"
    by (simp add: put_document_def example_db_def)
  from request_appointment_pending [of "example_form\<lparr>patient_name_input := []\<rparr>"
      "''a0''" example_db example_user "example_doctor ''P1''" empty_session NotFound None] b
  have "request_appointment None example_user (example_doctor ''P1'') ''a0''
          (example_form\<lparr>patient_name_input := []\<rparr>) empty_session example_db
        = (Warning ''Please enter your name.'', empty_session, example_db)" by blast
  with a k run fail st ids show ?thesis by simp
qed

section \<open>Search and detail lookups: results\<close>

lemma lookup_details_same_places:
  "map place_id (fst (lookup_details sv ds tmp)) = map place_id ds \<and>
   map search_fields (fst (lookup_details sv ds tmp)) = map search_fields ds"
proof (induction ds arbitrary: tmp)
  case Nil
  show ?case by simp
next
  case (Cons d ds)
  show ?case
  proof (cases "place sv (place_id d) place_fields")
    case (Inl e)
    then show ?thesis by simp
  next
    case (Inr pd)
    let ?tmp' = "add_map_point (get_result pd) tmp"
    obtain rest' r where l: "lookup_details sv ds ?tmp' = (rest', r)"
      by (cases "lookup_details sv ds ?tmp'")
    from Cons.IH [of ?tmp'] l
    have "map place_id rest' = map place_id ds \<and> map search_fields rest' = map search_fields ds"
      by simp
    with Inr l show ?thesis by (simp add: Let_def)
  qed
qed

lemma lookup_details_all_return:
  "\<forall>d \<in> set ds. \<exists>pd. place sv (place_id d) place_fields = Inr pd \<Longrightarrow>
   \<exists>m. lookup_details sv ds tmp = (map (looked_up sv) ds, Inr m)"
proof (induction ds arbitrary: tmp)
  case Nil
  show ?case by simp
next
  case (Cons d ds)
  then obtain pd where pd: "place sv (place_id d) place_fields = Inr pd" by auto
  from Cons.IH [of "add_map_point (get_result pd) tmp"] Cons.prems
  obtain m where "lookup_details sv ds (add_map_point (get_result pd) tmp)
                    = (map (looked_up sv) ds, Inr m)" by auto
  with pd show ?case by (simp add: Let_def looked_up_def)
qed

lemma lookup_details_raises:
  "\<forall>d \<in> set pre. \<exists>pd. place sv (place_id d) place_fields = Inr pd \<Longrightarrow>
   place sv (place_id bad) place_fields = Inl e \<Longrightarrow>
   lookup_details sv (pre @ bad # post) tmp = (map (looked_up sv) pre @ bad # post, Inl e)"
proof (induction pre arbitrary: tmp)
  case Nil
  then show ?case by simp
next
  case (Cons d pre)
  then obtain pd where pd: "place sv (place_id d) place_fields = Inr pd" by auto
  with Cons show ?case by (simp add: Let_def looked_up_def)
qed

text \<open>
  C6. When the classifier and the search call return, the candidates are the first five
  search results (all of them when there are fewer), in the order the search returned
  them; the list the run leaves in the session has these places in this order, whatever
  the detail lookups do. A search without results gives the empty list and the run ends
  normally, not in an error.
\<close>

theorem search_top_five:
  assumes "predict sv input = Inr p"
    and "places sv (specialist_for p @ '' in '' @ user_location) ''doctor'' = Inr r"
  shows "search sv (specialist_for p) user_location = Inr (take 5 (get_results r)) \<and>
         length (take 5 (get_results r)) \<le> 5 \<and>
         prefix (take 5 (get_results r)) (get_results r) \<and>
         map place_id (doctors_list (snd (recommend sv input user_location st)))
           = map place_id (take 5 (get_results r)) \<and>
         map search_fields (doctors_list (snd (recommend sv input user_location st)))
           = map search_fields (take 5 (get_results r)) \<and>
         (get_results r = [] \<longrightarrow>
            recommend sv input user_location st =
              (Done, st\<lparr>prediction := Some p, specialist := Some (specialist_for p),
                        doctors_list := [], map_data_list := []\<rparr>))"
proof -
  let ?ds = "take 5 (get_results r)"
  have s: "search sv (specialist_for p) user_location = Inr ?ds"
    using assms(2) by (simp add: search_def top_results_def)
  have l: "doctors_list (snd (recommend sv input user_location st))
             = fst (lookup_details sv ?ds [])"
    using assms(1) s by (simp add: recommend_def Let_def split: prod.splits sum.splits)
  have z: "get_results r = [] \<longrightarrow>
            recommend sv input user_location st =
              (Done, st\<lparr>prediction := Some p, specialist := Some (specialist_for p),
                        doctors_list := [], map_data_list := []\<rparr>)"
    using assms(1) s by (simp add: recommend_def Let_def)
  show ?thesis
    using s l z lookup_details_same_places [of sv ?ds "[]"]
    by (simp add: take_is_prefix)
qed


theorem search_top_five_witness:
  "search patchy_services ''Dermatologist'' ''Lucknow''
     = Inr (map example_doctor [''p1'', ''p2'', ''p3'', ''p4'', ''p5'']) \<and>
   map place_id (doctors_list (snd (recommend patchy_services [(''itching'', 1)] ''Lucknow''
                                      empty_session)))
     = [''p1'', ''p2'', ''p3'', ''p4'', ''p5''] \<and>
   recommend example_services [(''itching'', 1)] ''Lucknow'' empty_session
     = (Done, empty_session\<lparr>prediction := Some ''Fungal infection'',
               specialist := Some ''Dermatologist'', doctors_list := [],
               map_data_list := []\<rparr>)"
proof -
  let ?r = "\<lparr>results = Some (map example_doctor
                 [''p1'', ''p2'', ''p3'', ''p4'', ''p5'', ''p6''])\<rparr>"
  have sp: "specialist_for ''Fungal infection'' = ''Dermatologist''"
    by (simp add: specialist_for_def specialty_map_def)
  have a: "predict patchy_services [(''itching'', 1)] = Inr ''Fungal infection''"
    by (simp add: patchy_services_def)
  have b: "places patchy_services (specialist_for ''Fungal infection'' @ '' in '' @ ''Lucknow'')
             ''doctor'' = Inr ?r"
    by (simp add: patchy_services_def)
  have t: "take 5 (get_results ?r) = map example_doctor [''p1'', ''p2'', ''p3'', ''p4'', ''p5'']"
    by (simp add: get_results_def)
  have m: "map place_id (map example_doctor [''p1'', ''p2'', ''p3'', ''p4'', ''p5''])
             = [''p1'', ''p2'', ''p3'', ''p4'', ''p5'']"
    by (simp add: example_doctor_def)
  have c: "predict example_services [(''itching'', 1)] = Inr ''Fungal infection''"
    by (simp add: example_services_def)
  have d: "places example_services (specialist_for ''Fungal infection'' @ '' in '' @ ''Lucknow'')
             ''doctor'' = Inr \<lparr>results = Some []\<rparr>"
    by (simp add: example_services_def)
  have e: "get_results \<lparr>results = Some []\<rparr> = []"
    by (simp add: get_results_def)
  from search_top_five [OF a b, of empty_session] search_top_five [OF c d, of empty_session] e
  show ?thesis by (simp only: sp t m)
qed

text \<open>
  C7, as stated, fails. The lookup of the second of three candidates raises: the run ends
  in the error, the third candidate is never looked up, and no map data is stored.
\<close>

theorem failed_lookup_counterexample:
  "fst (recommend failing_services [(''itching'', 1)] ''Lucknow'' empty_session)
     = Error (ServiceError ''timeout'') \<and>
   map place_id
     (doctors_list (snd (recommend failing_services [(''itching'', 1)] ''Lucknow''
                           empty_session)))
     = [''p1'', ''p2'', ''p3''] \<and>
   map doctor_details
     (doctors_list (snd (recommend failing_services [(''itching'', 1)] ''Lucknow''
                           empty_session)))
     = [Some (example_details ''p1''), None, None] \<and>
   map_data_list (snd (recommend failing_services [(''itching'', 1)] ''Lucknow''
                         empty_session)) = []"
  by (simp add: recommend_def search_def top_results_def get_results_def get_result_def
      add_map_point_def failing_services_def example_doctor_def
      empty_session_def place_fields_def)

text \<open>
  C7, amended. A detail lookup that raises ends the loop and the run with that error: the
  candidate list stays, with the candidates before the failing one as their lookups left
  them and the failing candidate and all later ones with only what the search call
  provided; the map data of the session is not written. When every lookup returns, the
  run ends normally with every candidate looked up; a lookup that returns without a
  result gives that candidate empty details and does not end the loop.
\<close>

theorem detail_lookups:
  assumes "predict sv input = Inr p"
  shows "(search sv (specialist_for p) user_location = Inr (pre @ bad # post) \<and>
          (\<forall>d \<in> set pre. \<exists>pd. place sv (place_id d) place_fields = Inr pd) \<and>
          place sv (place_id bad) place_fields = Inl e \<longrightarrow>
            recommend sv input user_location st =
              (Error e, st\<lparr>prediction := Some p, specialist := Some (specialist_for p),
                           doctors_list := map (looked_up sv) pre @ bad # post\<rparr>)) \<and>
         (search sv (specialist_for p) user_location = Inr ds \<and>
          (\<forall>d \<in> set ds. \<exists>pd. place sv (place_id d) place_fields = Inr pd) \<longrightarrow>
            (\<exists>m. recommend sv input user_location st =
              (Done, st\<lparr>prediction := Some p, specialist := Some (specialist_for p),
                        doctors_list := map (looked_up sv) ds, map_data_list := m\<rparr>))) \<and>
         (place sv (place_id d) place_fields = Inr \<lparr>result = None\<rparr> \<longrightarrow>
            looked_up sv d = d\<lparr>doctor_details := Some no_details\<rparr>) \<and>
         (place sv (place_id d) place_fields = Inr \<lparr>result = Some x\<rparr> \<longrightarrow>
            looked_up sv d = d\<lparr>doctor_details := Some x\<rparr>)"
proof (intro conjI impI)
  assume a: "search sv (specialist_for p) user_location = Inr (pre @ bad # post) \<and>
          (\<forall>d \<in> set pre. \<exists>pd. place sv (place_id d) place_fields = Inr pd) \<and>
          place sv (place_id bad) place_fields = Inl e"
  then have "lookup_details sv (pre @ bad # post) []
               = (map (looked_up sv) pre @ bad # post, Inl e)"
    by (intro lookup_details_raises) simp_all
  with a assms show "recommend sv input user_location st =
              (Error e, st\<lparr>prediction := Some p, specialist := Some (specialist_for p),
                           doctors_list := map (looked_up sv) pre @ bad # post\<rparr>)"
    by (simp add: recommend_def Let_def)
next
  assume a: "search sv (specialist_for p) user_location = Inr ds \<and>
          (\<forall>d \<in> set ds. \<exists>pd. place sv (place_id d) place_fields = Inr pd)"
  then obtain m where "lookup_details sv ds [] = (map (looked_up sv) ds, Inr m)"
    using lookup_details_all_return [of ds sv "[]"] by blast
  with a assms have "recommend sv input user_location st =
              (Done, st\<lparr>prediction := Some p, specialist := Some (specialist_for p),
                        doctors_list := map (looked_up sv) ds, map_data_list := m\<rparr>)"
    by (simp add: recommend_def Let_def)
  then show "\<exists>m. recommend sv input user_location st =
              (Done, st\<lparr>prediction := Some p, specialist := Some (specialist_for p),
                        doctors_list := map (looked_up sv) ds, map_data_list := m\<rparr>)" ..
next
  assume "place sv (place_id d) place_fields = Inr \<lparr>result = None\<rparr>"
  then show "looked_up sv d = d\<lparr>doctor_details := Some no_details\<rparr>"
    by (simp add: looked_up_def get_result_def)
next
  assume "place sv (place_id d) place_fields = Inr \<lparr>result = Some x\<rparr>"
  then show "looked_up sv d = d\<lparr>doctor_details := Some x\<rparr>"
    by (simp add: looked_up_def get_result_def)
qed


theorem detail_lookups_witness:
  "recommend failing_services [(''itching'', 1)] ''Lucknow'' empty_session =
     (Error (ServiceError ''timeout''),
      empty_session\<lparr>prediction := Some ''Fungal infection'',
        specialist := Some ''Dermatologist'',
        doctors_list := [(example_doctor ''p1'')\<lparr>doctor_details := Some (example_details ''p1'')\<rparr>,
                         example_doctor ''p2'', example_doctor ''p3'']\<rparr>) \<and>
   fst (recommend patchy_services [(''itching'', 1)] ''Lucknow'' empty_session) = Done \<and>
   doctors_list (snd (recommend patchy_services [(''itching'', 1)] ''Lucknow'' empty_session)) =
     [(example_doctor ''p1'')\<lparr>doctor_details := Some (example_details ''p1'')\<rparr>,
      (example_doctor ''p2'')\<lparr>doctor_details := Some no_details\<rparr>,
      (example_doctor ''p3'')\<lparr>doctor_details := Some (example_details ''p3'')\<rparr>,
      (example_doctor ''p4'')\<lparr>doctor_details := Some (example_details ''p4'')\<rparr>,
      (example_doctor ''p5'')\<lparr>doctor_details := Some (example_details ''p5'')\<rparr>]"
proof -
  have sp: "specialist_for ''Fungal infection'' = ''Dermatologist''"
    by (simp add: specialist_for_def specialty_map_def)
  have pid: "\<And>x. place_id (example_doctor x) = x" by (simp add: example_doctor_def)
  \<comment> \<open>the run in which the second lookup raises\<close>
  have f1: "predict failing_services [(''itching'', 1)] = Inr ''Fungal infection''"
    by (simp add: failing_services_def)
  have f2: "search failing_services (specialist_for ''Fungal infection'') ''Lucknow''
              = Inr ([example_doctor ''p1''] @ example_doctor ''p2'' # [example_doctor ''p3''])"
    by (simp add: search_def top_results_def get_results_def failing_services_def)
  have f3: "\<forall>d \<in> set [example_doctor ''p1''].
              \<exists>pd. place failing_services (place_id d) place_fields = Inr pd"
    by (simp add: failing_services_def pid)
  have f4: "place failing_services (place_id (example_doctor ''p2'')) place_fields
              = Inl (ServiceError ''timeout'')"
    by (simp add: failing_services_def pid)
  have f5: "looked_up failing_services (example_doctor ''p1'')
              = (example_doctor ''p1'')\<lparr>doctor_details := Some (example_details ''p1'')\<rparr>"
    by (simp add: looked_up_def get_result_def failing_services_def pid)
  from detail_lookups [OF f1, of "''Lucknow''" "[example_doctor ''p1'']" "example_doctor ''p2''"
      "[example_doctor ''p3'']" "ServiceError ''timeout''" empty_session] f2 f3 f4
  have "recommend failing_services [(''itching'', 1)] ''Lucknow'' empty_session =
     (Error (ServiceError ''timeout''),
      empty_session\<lparr>prediction := Some ''Fungal infection'',
        specialist := Some (specialist_for ''Fungal infection''),
        doctors_list := map (looked_up failing_services) [example_doctor ''p1'']
           @ example_doctor ''p2'' # [example_doctor ''p3'']\<rparr>)"
    by blast
  then have first: "recommend failing_services [(''itching'', 1)] ''Lucknow'' empty_session =
     (Error (ServiceError ''timeout''),
      empty_session\<lparr>prediction := Some ''Fungal infection'',
        specialist := Some ''Dermatologist'',
        doctors_list := [(example_doctor ''p1'')\<lparr>doctor_details := Some (example_details ''p1'')\<rparr>,
                         example_doctor ''p2'', example_doctor ''p3'']\<rparr>)"
    by (simp add: sp f5)
  \<comment> \<open>the run in which the second lookup returns without a result\<close>
  let ?ds = "map example_doctor [''p1'', ''p2'', ''p3'', ''p4'', ''p5'']"
  have g1: "predict patchy_services [(''itching'', 1)] = Inr ''Fungal infection''"
    by (simp add: patchy_services_def)
  have g2: "search patchy_services (specialist_for ''Fungal infection'') ''Lucknow'' = Inr ?ds"
    by (simp add: search_def top_results_def get_results_def patchy_services_def)
  have g3: "\<forall>d \<in> set ?ds. \<exists>pd. place patchy_services (place_id d) place_fields = Inr pd"
    by (simp add: patchy_services_def pid)
  have g4: "place patchy_services (place_id (example_doctor ''p2'')) place_fields
              = Inr \<lparr>result = None\<rparr>"
    by (simp add: patchy_services_def pid)
  have g5: "\<And>x. x \<noteq> ''p2'' \<Longrightarrow> looked_up patchy_services (example_doctor x)
              = (example_doctor x)\<lparr>doctor_details := Some (example_details x)\<rparr>"
    by (simp add: looked_up_def get_result_def patchy_services_def pid)
  note th = detail_lookups [OF g1, of "''Lucknow''" _ _ _ _ empty_session ?ds
      "example_doctor ''p2''"]
  from th g4 have g6: "looked_up patchy_services (example_doctor ''p2'')
              = (example_doctor ''p2'')\<lparr>doctor_details := Some no_details\<rparr>"
    by blast
  from th g2 g3 obtain m where
    "recommend patchy_services [(''itching'', 1)] ''Lucknow'' empty_session =
       (Done, empty_session\<lparr>prediction := Some ''Fungal infection'',
                specialist := Some (specialist_for ''Fungal infection''),
                doctors_list := map (looked_up patchy_services) ?ds, map_data_list := m\<rparr>)"
    by blast
  then have second: "recommend patchy_services [(''itching'', 1)] ''Lucknow'' empty_session =
     (Done,
      empty_session\<lparr>prediction := Some ''Fungal infection'',
        specialist := Some ''Dermatologist'',
        doctors_list :=
          [(example_doctor ''p1'')\<lparr>doctor_details := Some (example_details ''p1'')\<rparr>,
           (example_doctor ''p2'')\<lparr>doctor_details := Some no_details\<rparr>,
           (example_doctor ''p3'')\<lparr>doctor_details := Some (example_details ''p3'')\<rparr>,
           (example_doctor ''p4'')\<lparr>doctor_details := Some (example_details ''p4'')\<rparr>,
           (example_doctor ''p5'')\<lparr>doctor_details := Some (example_details ''p5'')\<rparr>],
        map_data_list := m\<rparr>)"
    by (simp add: sp g5 g6)
  from first second show ?thesis by simp
qed

end
